theory Spec2Isabelle
  imports Main
begin

section \<open>Strings of the platform\<close>

text \<open>
  The program is a browser script (\<^verbatim>\<open>src/app.js\<close>). Its strings are modelled as
  \<^typ>\<open>string\<close>: every character is one code unit in the range 0..255. The white space
  that \<^verbatim>\<open>String.prototype.trim\<close> and \<^verbatim>\<open>parseFloat\<close> skip is, in that range,
  TAB, LF, VT, FF, CR, SPACE and NBSP.
\<close>

abbreviation DQ :: char where "DQ \<equiv> CHR 0x22"
abbreviation LF :: char where "LF \<equiv> CHR 0x0A"
abbreviation CR :: char where "CR \<equiv> CHR 0x0D"
abbreviation COMMA :: char where "COMMA \<equiv> CHR '',''"

definition is_ws :: "char \<Rightarrow> bool" where
  "is_ws c = (c = CHR 0x09 \<or> c = CHR 0x0A \<or> c = CHR 0x0B \<or> c = CHR 0x0C \<or> c = CHR 0x0D
              \<or> c = CHR 0x20 \<or> c = CHR 0xA0)"

definition trim :: "string \<Rightarrow> string" where
  "trim s = rev (dropWhile is_ws (rev (dropWhile is_ws s)))"

definition lower_char :: "char \<Rightarrow> char" where
  "lower_char c =
     (let n = (of_char c :: int)
      in if (65 \<le> n \<and> n \<le> 90) \<or> (192 \<le> n \<and> n \<le> 222 \<and> n \<noteq> 215) then char_of (n + 32) else c)"

definition toLowerCase :: "string \<Rightarrow> string" where
  "toLowerCase s = map lower_char s"

definition is_digit :: "char \<Rightarrow> bool" where
  "is_digit c = (48 \<le> (of_char c :: int) \<and> (of_char c :: int) \<le> 57)"

definition digit_val :: "char \<Rightarrow> int" where
  "digit_val c = of_char c - 48"

definition digits_val :: "string \<Rightarrow> int" where
  "digits_val ds = foldl (\<lambda>a c. 10 * a + digit_val c) 0 ds"

definition digit_char :: "int \<Rightarrow> char" where
  "digit_char d = ''0123456789'' ! nat d"

function digits_of :: "int \<Rightarrow> string" where
  "digits_of n = (if n < 10 then [digit_char n] else digits_of (n div 10) @ [digit_char (n mod 10)])"
  by pat_completeness auto
termination
  by (relation "measure nat") auto

declare digits_of.simps [simp del]

text \<open>
  \<^verbatim>\<open>s.replace(/re/g, '')\<close> for a regular expression that never matches the empty string:
  the scan goes left to right; where the expression matches, the match is dropped and the scan
  resumes after it; elsewhere the character is kept. The matcher gives the length of the match
  at the start of its argument (0: no match).
\<close>

function remove_matches :: "(string \<Rightarrow> nat) \<Rightarrow> string \<Rightarrow> string" where
  "remove_matches m [] = []"
| "remove_matches m (c # cs) =
     (if m (c # cs) = 0 then c # remove_matches m cs
      else remove_matches m (drop (m (c # cs)) (c # cs)))"
  by pat_completeness auto
termination
  by (relation "measure (\<lambda>(m, s). length s)") auto

text \<open>The four expressions of the source: \<^verbatim>\<open>/"/g\<close>, \<^verbatim>\<open>/KHR/ig\<close>, \<^verbatim>\<open>/,/g\<close>, \<^verbatim>\<open>/[^0-9.-]/g\<close>.\<close>

definition match_dq :: "string \<Rightarrow> nat" where
  "match_dq s = (case s of c # _ \<Rightarrow> if c = DQ then 1 else 0 | [] \<Rightarrow> 0)"

definition match_comma :: "string \<Rightarrow> nat" where
  "match_comma s = (case s of c # _ \<Rightarrow> if c = COMMA then 1 else 0 | [] \<Rightarrow> 0)"

definition match_khr :: "string \<Rightarrow> nat" where
  "match_khr s =
     (case s of
        a # b # c # _ \<Rightarrow>
          if (a = CHR ''K'' \<or> a = CHR ''k'') \<and> (b = CHR ''H'' \<or> b = CHR ''h'')
             \<and> (c = CHR ''R'' \<or> c = CHR ''r'')
          then 3 else 0
      | _ \<Rightarrow> 0)"

definition is_numeric_char :: "char \<Rightarrow> bool" where
  "is_numeric_char c = (is_digit c \<or> c = CHR ''.'' \<or> c = CHR ''-'')"

definition match_non_numeric :: "string \<Rightarrow> nat" where
  "match_non_numeric s = (case s of c # _ \<Rightarrow> if is_numeric_char c then 0 else 1 | [] \<Rightarrow> 0)"


section \<open>Numbers of the platform\<close>

text \<open>
  A Number is an IEEE 754 binary64 value: \<open>Fin neg m e\<close> is \<open>(-1)^neg * m * 2^e\<close> in the
  canonical form of the format (\<open>e = -1074\<close> and \<open>m < 2^52\<close> for zero and the subnormals,
  \<open>2^52 \<le> m < 2^53\<close> and \<open>-1074 \<le> e \<le> 971\<close> otherwise), so that two values are equal
  exactly when their terms are. All arithmetic is exact integer arithmetic followed by one
  rounding to nearest, ties to even.
\<close>

datatype jsnum = NaN | Inf bool | Fin bool int int

function count_digits :: "int \<Rightarrow> int \<Rightarrow> nat" where
  "count_digits b n = (if n \<le> 0 \<or> b < 2 then 0 else Suc (count_digits b (n div b)))"
  by pat_completeness auto
termination
  by (relation "measure (\<lambda>(b, n). nat n)") (auto intro: int_div_less_self)

declare count_digits.simps [simp del]

definition ge_pow :: "int \<Rightarrow> int \<Rightarrow> int \<Rightarrow> int \<Rightarrow> bool" where
  \<comment> \<open>\<open>b^k \<le> n / d\<close>\<close>
  "ge_pow b n d k = (if 0 \<le> k then d * b ^ nat k \<le> n else d \<le> n * b ^ nat (- k))"

definition ilog :: "int \<Rightarrow> int \<Rightarrow> int \<Rightarrow> int" where
  \<comment> \<open>the integer \<open>k\<close> with \<open>b^k \<le> n / d < b^(k+1)\<close>, for positive \<open>n\<close> and \<open>d\<close>\<close>
  "ilog b n d =
     (let k0 = int (count_digits b n) - int (count_digits b d)
      in if ge_pow b n d k0 then k0 else k0 - 1)"

definition round_double :: "bool \<Rightarrow> int \<Rightarrow> int \<Rightarrow> jsnum" where
  \<comment> \<open>the binary64 nearest to \<open>n / d\<close> (ties to even), with the sign \<open>neg\<close>\<close>
  "round_double neg n d =
     (if n = 0 then Fin neg 0 (- 1074)
      else
        let e = max (ilog 2 n d - 52) (- 1074);
            N = (if e < 0 then n * 2 ^ nat (- e) else n);
            D = (if e < 0 then d else d * 2 ^ nat e);
            q = N div D;
            r = N mod D;
            m = (if 2 * r < D then q else if D < 2 * r then q + 1
                 else if even q then q else q + 1)
        in if m = 2 ^ 53 then (if 971 \<le> e then Inf neg else Fin neg (2 ^ 52) (e + 1))
           else if 971 < e then Inf neg
           else Fin neg m e)"

definition scale_frac :: "int \<times> int \<Rightarrow> int \<Rightarrow> int \<Rightarrow> int \<times> int" where
  \<comment> \<open>the fraction \<open>n / d\<close> times \<open>b^x\<close>\<close>
  "scale_frac f b x =
     (if 0 \<le> x then (fst f * b ^ nat x, snd f) else (fst f, snd f * b ^ nat (- x)))"

definition mag_frac :: "int \<Rightarrow> int \<Rightarrow> int \<times> int" where
  "mag_frac m e = scale_frac (m, 1) 2 e"

definition round_decimal :: "bool \<Rightarrow> int \<Rightarrow> int \<Rightarrow> jsnum" where
  \<comment> \<open>the Number of the decimal \<open>M * 10^x\<close>\<close>
  "round_decimal neg M x = (let f = scale_frac (M, 1) 10 x in round_double neg (fst f) (snd f))"

fun div_by :: "jsnum \<Rightarrow> int \<Rightarrow> jsnum" where
  \<comment> \<open>\<^verbatim>\<open>x / r\<close> for a positive integer constant \<open>r\<close>\<close>
  "div_by NaN r = NaN"
| "div_by (Inf neg) r = Inf neg"
| "div_by (Fin neg m e) r = (let f = mag_frac m e in round_double neg (fst f) (snd f * r))"

subsection \<open>Reading a Number: \<^verbatim>\<open>parseFloat\<close> and the coercion of a string\<close>

datatype declit = LitInf | LitDec int int

definition parse_exponent :: "string \<Rightarrow> int \<times> string" where
  \<comment> \<open>an optional ExponentPart: its value and what follows it\<close>
  "parse_exponent s =
     (case s of
        [] \<Rightarrow> (0, s)
      | c # r \<Rightarrow>
          if c = CHR ''e'' \<or> c = CHR ''E'' then
            (let neg = (case r of d # _ \<Rightarrow> d = CHR ''-'' | [] \<Rightarrow> False);
                 r' = (case r of d # r2 \<Rightarrow> if d = CHR ''+'' \<or> d = CHR ''-'' then r2 else r | [] \<Rightarrow> r);
                 ds = takeWhile is_digit r'
             in if ds = [] then (0, s)
                else ((if neg then - digits_val ds else digits_val ds),
                      dropWhile is_digit r'))
          else (0, s))"

definition parse_unsigned_decimal :: "string \<Rightarrow> (declit \<times> string) option" where
  \<comment> \<open>the longest prefix that is a StrUnsignedDecimalLiteral, and what follows it\<close>
  "parse_unsigned_decimal s =
     (if take 8 s = ''Infinity'' then Some (LitInf, drop 8 s)
      else
        let ip = takeWhile is_digit s; r1 = dropWhile is_digit s
        in case r1 of
             c # r2 \<Rightarrow>
               if c = CHR ''.'' then
                 (let fp = takeWhile is_digit r2; r3 = dropWhile is_digit r2
                  in if ip = [] \<and> fp = [] then None
                     else let xr = parse_exponent r3
                          in Some (LitDec (digits_val (ip @ fp)) (fst xr - int (length fp)), snd xr))
               else if ip = [] then None
               else (let xr = parse_exponent r1 in Some (LitDec (digits_val ip) (fst xr), snd xr))
           | [] \<Rightarrow> if ip = [] then None else Some (LitDec (digits_val ip) 0, []))"

definition parse_decimal_literal :: "string \<Rightarrow> (bool \<times> declit \<times> string) option" where
  \<comment> \<open>the longest prefix that is a StrDecimalLiteral: sign, literal, rest\<close>
  "parse_decimal_literal s =
     (case s of
        [] \<Rightarrow> None
      | c # r \<Rightarrow>
          if c = CHR ''+'' then map_option (Pair False) (parse_unsigned_decimal r)
          else if c = CHR ''-'' then map_option (Pair True) (parse_unsigned_decimal r)
          else map_option (Pair False) (parse_unsigned_decimal s))"

fun lit_value :: "bool \<Rightarrow> declit \<Rightarrow> jsnum" where
  "lit_value neg LitInf = Inf neg"
| "lit_value neg (LitDec M x) = round_decimal neg M x"

definition parseFloat :: "string \<Rightarrow> jsnum" where
  "parseFloat s =
     (case parse_decimal_literal (dropWhile is_ws s) of
        None \<Rightarrow> NaN
      | Some (neg, l, _) \<Rightarrow> lit_value neg l)"

definition radix_digit :: "int \<Rightarrow> char \<Rightarrow> int option" where
  "radix_digit b c =
     (let n = (of_char c :: int);
          v = (if 48 \<le> n \<and> n \<le> 57 then n - 48
               else if 97 \<le> n \<and> n \<le> 102 then n - 87
               else if 65 \<le> n \<and> n \<le> 70 then n - 55
               else 16)
      in if v < b then Some v else None)"

definition parse_radix_literal :: "string \<Rightarrow> int option" where
  \<comment> \<open>\<^verbatim>\<open>0x\<close>, \<^verbatim>\<open>0o\<close> and \<^verbatim>\<open>0b\<close> literals\<close>
  "parse_radix_literal s =
     (case s of
        z # c # ds \<Rightarrow>
          (let b = (if c = CHR ''x'' \<or> c = CHR ''X'' then 16
                    else if c = CHR ''o'' \<or> c = CHR ''O'' then 8
                    else if c = CHR ''b'' \<or> c = CHR ''B'' then 2 else (0::int))
           in if z = CHR ''0'' \<and> b \<noteq> 0 \<and> ds \<noteq> [] \<and> list_all (\<lambda>d. radix_digit b d \<noteq> None) ds
              then Some (foldl (\<lambda>a d. b * a + the (radix_digit b d)) 0 ds)
              else None)
      | _ \<Rightarrow> None)"

definition to_number :: "string \<Rightarrow> jsnum" where
  \<comment> \<open>the coercion of a string to a Number (as in \<^verbatim>\<open>Number(s)\<close> and \<^verbatim>\<open>s / 4000\<close>)\<close>
  "to_number s =
     (let t = trim s
      in if t = [] then Fin False 0 (- 1074)
         else case parse_radix_literal t of
                Some n \<Rightarrow> round_double False n 1
              | None \<Rightarrow>
                  (case parse_decimal_literal t of
                     Some (neg, l, []) \<Rightarrow> lit_value neg l
                   | _ \<Rightarrow> NaN))"

subsection \<open>Writing a Number: \<^verbatim>\<open>String(x)\<close> and \<^verbatim>\<open>x.toFixed(2)\<close>\<close>

text \<open>
  \<^verbatim>\<open>String(x)\<close> writes the shortest decimal that reads back as \<open>x\<close>: the least number
  \<open>k\<close> of digits for which some \<open>s\<close> with \<open>k\<close> digits has \<open>s * 10^(n-k)\<close> round to \<open>x\<close>,
  and for that \<open>k\<close> the one nearest to \<open>x\<close>. Seventeen digits always suffice.
\<close>

function shortest_digits :: "int \<Rightarrow> int \<Rightarrow> int \<Rightarrow> nat \<Rightarrow> int \<times> int" where
  "shortest_digits m e n k =
     (let t = scale_frac (mag_frac m e) 10 (int k - n);
          lo = fst t div snd t;
          r = fst t mod snd t;
          hi = lo + 1;
          ok_lo = (round_decimal False lo (n - int k) = Fin False m e);
          ok_hi = (round_decimal False hi (n - int k) = Fin False m e);
          pick_hi = (ok_hi \<and> (\<not> ok_lo \<or> snd t < 2 * r \<or> (snd t = 2 * r \<and> odd lo)))
      in if pick_hi then (if hi = 10 ^ k then (10 ^ (k - 1), n + 1) else (hi, n))
         else if ok_lo \<or> 17 \<le> k then (lo, n)
         else shortest_digits m e n (Suc k))"
  by pat_completeness auto
termination
  by (relation "measure (\<lambda>(m, e, n, k). 17 - k)") auto

declare shortest_digits.simps [simp del]

definition pos_to_string :: "int \<Rightarrow> int \<Rightarrow> string" where
  "pos_to_string m e =
     (let v = mag_frac m e;
          sn = shortest_digits m e (ilog 10 (fst v) (snd v) + 1) 1;
          ds = digits_of (fst sn);
          n = snd sn;
          k = int (length ds)
      in if k \<le> n \<and> n \<le> 21 then ds @ replicate (nat (n - k)) (CHR ''0'')
         else if 0 < n \<and> n \<le> 21 then take (nat n) ds @ ''.'' @ drop (nat n) ds
         else if - 6 < n \<and> n \<le> 0 then ''0.'' @ replicate (nat (- n)) (CHR ''0'') @ ds
         else
           let es = (if n - 1 < 0 then ''-'' else ''+'') @ digits_of \<bar>n - 1\<bar>
           in if k = 1 then ds @ ''e'' @ es
              else take 1 ds @ ''.'' @ drop 1 ds @ ''e'' @ es)"

fun num_to_string :: "jsnum \<Rightarrow> string" where
  "num_to_string NaN = ''NaN''"
| "num_to_string (Inf neg) = (if neg then ''-Infinity'' else ''Infinity'')"
| "num_to_string (Fin neg m e) =
     (if m = 0 then ''0'' else (if neg then ''-'' else []) @ pos_to_string m e)"

definition fixed2 :: "int \<Rightarrow> string" where
  \<comment> \<open>the integer \<open>n\<close> of hundredths, written with two decimals\<close>
  "fixed2 n =
     (let ds = digits_of n;
          ds' = (if length ds \<le> 2 then replicate (3 - length ds) (CHR ''0'') @ ds else ds)
      in take (length ds' - 2) ds' @ ''.'' @ drop (length ds' - 2) ds')"

fun toFixed2 :: "jsnum \<Rightarrow> string" where
  "toFixed2 NaN = ''NaN''"
| "toFixed2 (Inf neg) = num_to_string (Inf neg)"
| "toFixed2 (Fin neg m e) =
     (let v = mag_frac m e;
          sgn = (if neg \<and> m \<noteq> 0 then ''-'' else [])
      in if 10 ^ 21 * snd v \<le> fst v then sgn @ num_to_string (Fin False m e)
         else sgn @ fixed2 ((200 * fst v + snd v) div (2 * snd v)))"


section \<open>Currency normaliser: \<^verbatim>\<open>cleanCurrency\<close> and \<^verbatim>\<open>formatUSD\<close>\<close>

text \<open>The values the two helpers are called with: \<^verbatim>\<open>undefined\<close>, \<^verbatim>\<open>null\<close>, a string or a Number.\<close>

datatype jsval = Undefined | Null | Str string | Num jsnum

fun to_string :: "jsval \<Rightarrow> string" where
  "to_string Undefined = ''undefined''"
| "to_string Null = ''null''"
| "to_string (Str s) = s"
| "to_string (Num x) = num_to_string x"

definition RATE :: int where
  "RATE = 4000"

fun cleanCurrency :: "jsval \<Rightarrow> string" where
  "cleanCurrency Undefined = []"
| "cleanCurrency Null = []"
| "cleanCurrency v =
     trim (remove_matches match_comma
            (remove_matches match_khr (remove_matches match_dq (to_string v))))"

fun formatUSD :: "jsval \<Rightarrow> string" where
  "formatUSD Undefined = []"
| "formatUSD Null = []"
| "formatUSD v =
     (let n = parseFloat (remove_matches match_non_numeric (to_string v))
      in if n = NaN then [] else toFixed2 n)"


section \<open>Tabular parser: \<^verbatim>\<open>parseCSVText\<close>\<close>

text \<open>
  \<^verbatim>\<open>text.split(/\r?\n/)\<close>: the pieces between the matches of the expression, the piece
  after the last match included; \<open>cur\<close> is the piece being read.
\<close>

fun split_lines :: "string \<Rightarrow> string \<Rightarrow> string list" where
  "split_lines cur [] = [cur]"
| "split_lines cur (c # cs) =
     (if c = LF then cur # split_lines [] cs
      else if c = CR \<and> cs \<noteq> [] \<and> hd cs = LF then cur # split_lines [] (tl cs)
      else split_lines (cur @ [c]) cs)"

text \<open>
  The inner \<^verbatim>\<open>for\<close> loop of \<^verbatim>\<open>parseCSVText\<close> over one line, with its variables \<open>i\<close>,
  \<open>cur\<close>, \<open>inQuotes\<close> and \<open>cols\<close>; \<^verbatim>\<open>line[i+1]\<close> past the end is \<^verbatim>\<open>undefined\<close>,
  which is not a quote. The result is \<open>cols\<close> after the final \<^verbatim>\<open>cols.push(cur)\<close>.
\<close>

function parse_line :: "string \<Rightarrow> nat \<Rightarrow> string \<Rightarrow> bool \<Rightarrow> string list \<Rightarrow> string list" where
  "parse_line line i cur inQuotes cols =
     (if i < length line then
        (if line ! i = DQ then
           (if inQuotes \<and> i + 1 < length line \<and> line ! (i + 1) = DQ
            then parse_line line (i + 2) (cur @ [DQ]) inQuotes cols
            else parse_line line (i + 1) cur (\<not> inQuotes) cols)
         else if line ! i = COMMA \<and> \<not> inQuotes
           then parse_line line (i + 1) [] inQuotes (cols @ [cur])
         else parse_line line (i + 1) (cur @ [line ! i]) inQuotes cols)
      else cols @ [cur])"
  by pat_completeness auto
termination
  by (relation "measure (\<lambda>(line, i, cur, inQuotes, cols). length line - i)") auto

declare parse_line.simps [simp del]

definition parseCSVText :: "string \<Rightarrow> string list list" where
  "parseCSVText text =
     map (\<lambda>line. parse_line line 0 [] False [])
       (filter (\<lambda>l. trim l \<noteq> []) (split_lines [] text))"


section \<open>Record mapper\<close>

record book =
  name :: string
  khr :: string
  usd :: string

text \<open>
  The object \<^verbatim>\<open>obj\<close> built per data row is a map from header to cell; a key that was never
  assigned reads as \<^verbatim>\<open>undefined\<close> (\<open>None\<close>). \<^verbatim>\<open>a || b\<close> on such values takes the first
  that is a non-empty string.
\<close>

type_synonym jsobj = "string \<rightharpoonup> string"

definition or_js :: "string option \<Rightarrow> string option \<Rightarrow> string option" where
  "or_js a b = (case a of None \<Rightarrow> b | Some s \<Rightarrow> if s = [] then b else a)"

definition or_str :: "string option \<Rightarrow> string \<Rightarrow> string" where
  "or_str a d = (case a of None \<Rightarrow> d | Some s \<Rightarrow> if s = [] then d else s)"

definition opt_val :: "string option \<Rightarrow> jsval" where
  "opt_val a = (case a of None \<Rightarrow> Undefined | Some s \<Rightarrow> Str s)"

definition cell :: "string list \<Rightarrow> nat \<Rightarrow> string" where
  \<comment> \<open>\<^verbatim>\<open>r[idx] ? r[idx].trim() : ''\<close>\<close>
  "cell r idx = (if idx < length r \<and> r ! idx \<noteq> [] then trim (r ! idx) else [])"

fun build_obj :: "string list \<Rightarrow> string list \<Rightarrow> nat \<Rightarrow> jsobj \<Rightarrow> jsobj" where
  \<comment> \<open>\<^verbatim>\<open>header.forEach((h, idx) => obj[h] = ...)\<close>\<close>
  "build_obj [] r idx obj = obj"
| "build_obj (h # hs) r idx obj = build_obj hs r (Suc idx) (obj(h \<mapsto> cell r idx))"

definition normalize_header :: "string list \<Rightarrow> string list" where
  \<comment> \<open>\<^verbatim>\<open>rows.shift().map(h => h.trim().toLowerCase())\<close>\<close>
  "normalize_header hs = map (\<lambda>h. toLowerCase (trim h)) hs"

definition usd_arg :: "jsobj \<Rightarrow> jsval" where
  \<comment> \<open>\<^verbatim>\<open>obj['usd'] || (cleanCurrency(obj['price/unit']) / RATE)\<close>\<close>
  "usd_arg obj =
     (case or_js (obj ''usd'') None of
        Some s \<Rightarrow> Str s
      | None \<Rightarrow> Num (div_by (to_number (cleanCurrency (opt_val (obj ''price/unit'')))) RATE))"

definition import_row :: "string list \<Rightarrow> string list \<Rightarrow> book" where
  \<comment> \<open>the row mapper of the manual CSV import\<close>
  "import_row header r =
     (let obj = build_obj header r 0 Map.empty
      in \<lparr> name = or_str (or_js (or_js (obj ''book title'') (obj ''title'')) (obj ''name'')) [],
           khr = cleanCurrency
                   (Str (or_str (or_js (or_js (obj ''price/unit'') (obj ''khr'')) (obj ''price (khr)'')) [])),
           usd = formatUSD (usd_arg obj) \<rparr>)"

definition default_row :: "string list \<Rightarrow> string list \<Rightarrow> book" where
  \<comment> \<open>the row mapper of \<^verbatim>\<open>loadDefaultCSV\<close>\<close>
  "default_row header r =
     (let obj = build_obj header r 0 Map.empty
      in \<lparr> name = or_str (or_js (or_js (obj ''book title'') (obj ''title'')) (obj ''name'')) [],
           khr = cleanCurrency (Str (or_str (or_js (obj ''price/unit'') (obj ''khr'')) [])),
           usd = formatUSD (usd_arg obj) \<rparr>)"

text \<open>
  A spreadsheet row is the object the spreadsheet library returns for it: with
  \<^verbatim>\<open>raw: false\<close> every cell present is a formatted string, keyed by the header as written.
\<close>

definition sheet_usd_arg :: "jsobj \<Rightarrow> jsval" where
  \<comment> \<open>\<^verbatim>\<open>r['USD'] || (r['Price/Unit'] ? Number(String(r['Price/Unit']).replace(/[^0-9.-]/g,''))/RATE : '')\<close>\<close>
  "sheet_usd_arg r =
     (case or_js (r ''USD'') None of
        Some s \<Rightarrow> Str s
      | None \<Rightarrow>
          (case or_js (r ''Price/Unit'') None of
             Some p \<Rightarrow> Num (div_by (to_number (remove_matches match_non_numeric p)) RATE)
           | None \<Rightarrow> Str []))"

definition sheet_row :: "jsobj \<Rightarrow> book" where
  "sheet_row r =
     \<lparr> name = or_str (or_js (or_js (r ''Book Title'') (r ''Title'')) (r ''name'')) [],
       khr = cleanCurrency (Str (or_str (or_js (r ''Price/Unit'') (r ''KHR'')) [])),
       usd = formatUSD (sheet_usd_arg r) \<rparr>"


section \<open>Book store, search index and the handlers\<close>

text \<open>
  \<^verbatim>\<open>books\<close> is a JavaScript array: a position holds a record, or is a hole (a position
  below \<^verbatim>\<open>length\<close> that was never assigned), or holds \<^verbatim>\<open>null\<close> (what a hole becomes
  after \<^verbatim>\<open>JSON.stringify\<close> and \<^verbatim>\<open>JSON.parse\<close>). \<^verbatim>\<open>searchIndex\<close> is the array
  \<^verbatim>\<open>books.map(...)\<close> returns: \<^verbatim>\<open>map\<close> skips holes and leaves them holes (\<open>None\<close>).

  The persisted slot is absent, holds text that does not parse, or holds a saved array.
  \<^verbatim>\<open>localStorage.setItem\<close> is taken to succeed. The notices are the \<^verbatim>\<open>alert\<close> calls.
\<close>

datatype slot = Hole | JsonNull | Rec book

datatype stored = Absent | Corrupt | Saved "slot list"

datatype notice = CsvEmpty | ImportFailed | NameRequired | NoDataToExport

record state =
  books :: "slot list"
  searchIndex :: "string option list"
  storage :: stored
  alerts :: "notice list"
  modal_open :: bool

fun to_json :: "slot \<Rightarrow> slot" where
  "to_json Hole = JsonNull"
| "to_json JsonNull = JsonNull"
| "to_json (Rec b) = Rec b"

definition saveToStorage :: "state \<Rightarrow> state" where
  "saveToStorage st = st\<lparr>storage := Saved (map to_json (books st))\<rparr>"

definition loadFromStorage :: "state \<Rightarrow> state" where
  "loadFromStorage st = st\<lparr>books := (case storage st of Saved bs \<Rightarrow> bs | _ \<Rightarrow> [])\<rparr>"

definition composite :: "book \<Rightarrow> string" where
  \<comment> \<open>\<^verbatim>\<open>((b.name||'') + ' ' + (b.khr||'') + ' ' + (b.usd||'')).toLowerCase()\<close>\<close>
  "composite b = toLowerCase (name b @ '' '' @ khr b @ '' '' @ usd b)"

fun buildSearchIndex :: "slot list \<Rightarrow> string option list option" where
  \<comment> \<open>\<open>None\<close>: the TypeError of reading \<^verbatim>\<open>b.name\<close> of \<^verbatim>\<open>null\<close>\<close>
  "buildSearchIndex [] = Some []"
| "buildSearchIndex (Hole # bs) = map_option (Cons None) (buildSearchIndex bs)"
| "buildSearchIndex (JsonNull # bs) = None"
| "buildSearchIndex (Rec b # bs) = map_option (Cons (Some (composite b))) (buildSearchIndex bs)"

fun is_rec :: "slot \<Rightarrow> bool" where
  "is_rec (Rec b) = True"
| "is_rec _ = False"

definition render_ok :: "slot list \<Rightarrow> bool" where
  \<comment> \<open>\<^verbatim>\<open>render\<close> reads \<^verbatim>\<open>b.name\<close> at every position below \<^verbatim>\<open>length\<close>\<close>
  "render_ok bs = list_all is_rec bs"

definition rebuild :: "state \<Rightarrow> state option" where
  \<comment> \<open>\<^verbatim>\<open>buildSearchIndex(); render()\<close>; \<open>None\<close> when \<^verbatim>\<open>render\<close> throws\<close>
  "rebuild st =
     (case buildSearchIndex (books st) of
        None \<Rightarrow> None
      | Some ix \<Rightarrow> if render_ok (books st) then Some (st\<lparr>searchIndex := ix\<rparr>) else None)"

definition index_after :: "state \<Rightarrow> state" where
  \<comment> \<open>the state after \<^verbatim>\<open>buildSearchIndex(); render()\<close>, whether or not a TypeError ends the handler\<close>
  "index_after st =
     (case buildSearchIndex (books st) of
        None \<Rightarrow> st
      | Some ix \<Rightarrow> st\<lparr>searchIndex := ix\<rparr>)"

subsection \<open>Add and edit: \<^verbatim>\<open>saveFromModal\<close>\<close>

record form =
  editIndex :: string
  bookName :: string
  priceKHR :: string
  priceUSD :: string

fun array_index :: "jsnum \<Rightarrow> nat option" where
  \<comment> \<open>the array index a Number used as a property key names, if any (an integer from 0 to \<open>2^32 - 2\<close>)\<close>
  "array_index NaN = None"
| "array_index (Inf neg) = None"
| "array_index (Fin neg m e) =
     (let v = mag_frac m e
      in if m = 0 then Some 0
         else if neg \<or> fst v mod snd v \<noteq> 0 \<or> 2 ^ 32 - 1 \<le> fst v div snd v then None
         else Some (nat (fst v div snd v)))"

definition array_set :: "slot list \<Rightarrow> jsnum \<Rightarrow> book \<Rightarrow> slot list" where
  \<comment> \<open>\<^verbatim>\<open>books[x] = entry\<close>\<close>
  "array_set bs x entry =
     (case array_index x of
        None \<Rightarrow> bs
      | Some k \<Rightarrow>
          if k < length bs then bs[k := Rec entry]
          else bs @ replicate (k - length bs) Hole @ [Rec entry])"

definition saveFromModal :: "form \<Rightarrow> state \<Rightarrow> state" where
  "saveFromModal f st =
     (let nm = trim (bookName f);
          k = cleanCurrency (Str (priceKHR f));
          u = formatUSD (Str (priceUSD f))
      in if nm = [] then st\<lparr>alerts := alerts st @ [NameRequired]\<rparr>
         else
           let entry = \<lparr>name = nm, khr = k, usd = u\<rparr>;
               bs = (if editIndex f = [] then Rec entry # books st
                     else array_set (books st) (to_number (editIndex f)) entry);
               st1 = saveToStorage (st\<lparr>books := bs\<rparr>)
           in case rebuild st1 of
                None \<Rightarrow> index_after st1
              | Some st2 \<Rightarrow> st2\<lparr>modal_open := False\<rparr>)"

subsection \<open>Delete: \<^verbatim>\<open>deleteBook\<close>\<close>



subsection \<open>Import: the \<^verbatim>\<open>change\<close> handler of \<^verbatim>\<open>#localCsvInput\<close>\<close>

text \<open>
  The chosen file: its name, what \<^verbatim>\<open>file.text()\<close> gives and what the spreadsheet library
  gives for it (\<open>None\<close>: the call throws).
\<close>

record upload =
  file_name :: string
  file_text :: "string option"
  sheet_json :: "jsobj list option"

definition ends_with :: "string \<Rightarrow> string \<Rightarrow> bool" where
  "ends_with s suffix = (length suffix \<le> length s \<and> drop (length s - length suffix) s = suffix)"

definition postImportFinish :: "state \<Rightarrow> state" where
  \<comment> \<open>called inside the handler's \<^verbatim>\<open>try\<close>: a TypeError ends in the \<^verbatim>\<open>catch\<close> and its notice\<close>
  "postImportFinish st =
     (let st1 = saveToStorage st
      in case rebuild st1 of
           None \<Rightarrow> (index_after st1)\<lparr>alerts := alerts st1 @ [ImportFailed]\<rparr>
         | Some st2 \<Rightarrow> st2)"

definition import_file :: "upload option \<Rightarrow> state \<Rightarrow> state" where
  "import_file file st =
     (case file of
        None \<Rightarrow> st
      | Some u \<Rightarrow>
          if ends_with (toLowerCase (file_name u)) ''.csv'' then
            (case file_text u of
               None \<Rightarrow> st\<lparr>alerts := alerts st @ [ImportFailed]\<rparr>
             | Some txt \<Rightarrow>
                 (let rows = parseCSVText txt
                  in if rows = [] then st\<lparr>alerts := alerts st @ [CsvEmpty]\<rparr>
                     else postImportFinish
                            (st\<lparr>books := map (\<lambda>r. Rec (import_row (normalize_header (hd rows)) r))
                                            (tl rows)\<rparr>)))
          else
            (case sheet_json u of
               None \<Rightarrow> st\<lparr>alerts := alerts st @ [ImportFailed]\<rparr>
             | Some json \<Rightarrow> postImportFinish (st\<lparr>books := map (\<lambda>r. Rec (sheet_row r)) json\<rparr>)))"

subsection \<open>Export: the \<^verbatim>\<open>click\<close> handler of \<^verbatim>\<open>#exportBtn\<close>\<close>

datatype export_result = Notice notice | TypeError | Download string

definition quote_field :: "string \<Rightarrow> string" where
  \<comment> \<open>\<^verbatim>\<open>`"${String(c).replace(/"/g,'""')}"`\<close>\<close>
  "quote_field c = [DQ] @ concat (map (\<lambda>ch. if ch = DQ then [DQ, DQ] else [ch]) c) @ [DQ]"

fun join :: "string \<Rightarrow> string list \<Rightarrow> string" where
  "join sep [] = []"
| "join sep [x] = x"
| "join sep (x # y # ys) = x @ sep @ join sep (y # ys)"

definition csv_of :: "string list list \<Rightarrow> string" where
  "csv_of rows = join [LF] (map (\<lambda>r. join [COMMA] (map quote_field r)) rows)"

fun the_rec :: "slot \<Rightarrow> book" where
  "the_rec (Rec b) = b"
| "the_rec _ = \<lparr>name = [], khr = [], usd = []\<rparr>"

definition export_csv :: "slot list \<Rightarrow> export_result" where
  "export_csv bs =
     (if bs = [] then Notice NoDataToExport
      else if \<not> list_all is_rec bs then TypeError
      else Download (csv_of ([''Book Title'', ''Price/Unit'', ''USD'']
                             # map (\<lambda>s. [name (the_rec s), khr (the_rec s), usd (the_rec s)]) bs)))"

subsection \<open>Bootstrap: \<^verbatim>\<open>loadDefaultCSV\<close> and \<^verbatim>\<open>init\<close>\<close>

text \<open>
  What \<^verbatim>\<open>fetch('books.csv')\<close> gives: a rejection, or a response with its \<^verbatim>\<open>ok\<close> flag and
  what \<^verbatim>\<open>res.text()\<close> gives (\<open>None\<close>: it rejects).
\<close>

datatype fetch_result = FetchFailed | Response bool "string option"

fun loadDefaultCSV :: "fetch_result \<Rightarrow> state \<Rightarrow> state" where
  "loadDefaultCSV FetchFailed st = st"
| "loadDefaultCSV (Response ok None) st = st"
| "loadDefaultCSV (Response ok (Some txt)) st =
     (if \<not> ok then st
      else
        let rows = parseCSVText txt
        in if length rows \<le> 1 then st
           else if books st = []
             then saveToStorage
                    (st\<lparr>books := map (\<lambda>r. Rec (default_row (normalize_header (hd rows)) r)) (tl rows)\<rparr>)
           else st)"

definition init :: "fetch_result \<Rightarrow> state \<Rightarrow> state" where
  \<comment> \<open>\<^verbatim>\<open>loadFromStorage(); await loadDefaultCSV(); buildSearchIndex(); render()\<close>\<close>
  "init fr st = index_after (loadDefaultCSV fr (loadFromStorage st))"

subsection \<open>Runs of the mutating operations\<close>




definition index_ok :: "state \<Rightarrow> bool" where
  \<comment> \<open>the index invariant: same length, and position by position the composite of the record\<close>
  "index_ok st =
     (length (searchIndex st) = length (books st)
      \<and> list_all2 (\<lambda>ix s. case s of Rec b \<Rightarrow> ix = Some (composite b) | _ \<Rightarrow> ix = None)
           (searchIndex st) (books st))"

definition no_null :: "state \<Rightarrow> bool" where
  "no_null st = list_all (\<lambda>s. s \<noteq> JsonNull) (books st)"


definition fresh :: state where
  \<comment> \<open>the state at the start of the script: \<^verbatim>\<open>books = []\<close>, \<^verbatim>\<open>searchIndex = []\<close>, nothing persisted\<close>
  "fresh = \<lparr>books = [], searchIndex = [], storage = Absent, alerts = [], modal_open = False\<rparr>"


section \<open>Reference definitions, in the words of the specification\<close>








text \<open>
  A column of a CSV data row, by normalised header: the cell under the last header equal to the
  key (a later column replaces an earlier one of the same name), trimmed, and empty where
  the row is too short; \<open>None\<close> where no header is the key. A value is present and not
  empty when it is \<open>truthy\<close>; \<open>first_nonempty\<close> resolves a list of aliases in order.
\<close>

definition truthy :: "string option \<Rightarrow> bool" where
  "truthy a = (case a of None \<Rightarrow> False | Some s \<Rightarrow> s \<noteq> [])"

fun lookup_col :: "string list \<Rightarrow> string list \<Rightarrow> nat \<Rightarrow> string \<Rightarrow> string option" where
  "lookup_col [] r idx key = None"
| "lookup_col (h # hs) r idx key =
     (case lookup_col hs r (Suc idx) key of
        Some v \<Rightarrow> Some v
      | None \<Rightarrow> if h = key then Some (cell r idx) else None)"

definition first_nonempty :: "string option list \<Rightarrow> string" where
  "first_nonempty xs = (case filter truthy xs of [] \<Rightarrow> [] | a # _ \<Rightarrow> the a)"


text \<open>
  The lines of a text: the pieces between line feeds, a piece that a line feed ended losing
  one carriage return at its end. The scanner of a line, with the field being read, the
  quoted-field flag and the fields already emitted.
\<close>

fun split_on :: "char \<Rightarrow> string \<Rightarrow> string list" where
  "split_on c [] = [[]]"
| "split_on c (x # xs) =
     (if x = c then [] # split_on c xs
      else (x # hd (split_on c xs)) # tl (split_on c xs))"

definition strip_cr :: "string \<Rightarrow> string" where
  "strip_cr p = (if p \<noteq> [] \<and> last p = CR then butlast p else p)"

definition spec_lines :: "string \<Rightarrow> string list" where
  "spec_lines text = map strip_cr (butlast (split_on LF text)) @ [last (split_on LF text)]"

fun scan :: "string \<Rightarrow> string \<Rightarrow> bool \<Rightarrow> string list \<Rightarrow> string list" where
  "scan [] cur q cols = cols @ [cur]"
| "scan (c # cs) cur q cols =
     (if c = DQ then
        (case cs of
           d # ds \<Rightarrow> if q \<and> d = DQ then scan ds (cur @ [DQ]) q cols else scan cs cur (\<not> q) cols
         | [] \<Rightarrow> scan cs cur (\<not> q) cols)
      else if c = COMMA \<and> \<not> q then scan cs [] q (cols @ [cur])
      else scan cs (cur @ [c]) q cols)"


section \<open>The currency normaliser\<close>















section \<open>The store and its handlers\<close>

lemma books_saveToStorage [simp]: "books (saveToStorage st) = books st"
  by (simp add: saveToStorage_def)

lemma alerts_saveToStorage [simp]: "alerts (saveToStorage st) = alerts st"
  by (simp add: saveToStorage_def)

lemma searchIndex_saveToStorage [simp]: "searchIndex (saveToStorage st) = searchIndex st"
  by (simp add: saveToStorage_def)

lemma storage_saveToStorage [simp]: "storage (saveToStorage st) = Saved (map to_json (books st))"
  by (simp add: saveToStorage_def)

lemma books_index_after [simp]: "books (index_after st) = books st"
  by (simp add: index_after_def split: option.splits)

lemma alerts_index_after [simp]: "alerts (index_after st) = alerts st"
  by (simp add: index_after_def split: option.splits)

lemma storage_index_after [simp]: "storage (index_after st) = storage st"
  by (simp add: index_after_def split: option.splits)

lemma rebuild_SomeD:
  "rebuild st = Some st' \<Longrightarrow> \<exists>ix. buildSearchIndex (books st) = Some ix \<and> st' = st\<lparr>searchIndex := ix\<rparr>"
  by (auto simp: rebuild_def split: option.splits if_splits)

lemma rebuild_index_after: "rebuild st = Some st' \<Longrightarrow> st' = index_after st"
  by (auto simp: rebuild_def index_after_def split: option.splits if_splits)

lemma books_saveFromModal:
  "books (saveFromModal f st) =
     (if trim (bookName f) = [] then books st
      else if editIndex f = []
        then Rec \<lparr>name = trim (bookName f), khr = cleanCurrency (Str (priceKHR f)),
                  usd = formatUSD (Str (priceUSD f))\<rparr> # books st
      else array_set (books st) (to_number (editIndex f))
             \<lparr>name = trim (bookName f), khr = cleanCurrency (Str (priceKHR f)),
              usd = formatUSD (Str (priceUSD f))\<rparr>)"
  by (auto simp: saveFromModal_def Let_def split: option.splits dest!: rebuild_index_after)


lemma build_all_rec:
  "buildSearchIndex (map Rec rs) = Some (map (\<lambda>b. Some (composite b)) rs)"
  by (induction rs) auto

lemma render_ok_map_Rec [simp]: "render_ok (map Rec rs)"
  by (simp add: render_ok_def list_all_iff)

lemma rebuild_all_rec:
  "books st = map Rec rs \<Longrightarrow> rebuild st = Some (st\<lparr>searchIndex := map (\<lambda>b. Some (composite b)) rs\<rparr>)"
  by (simp add: rebuild_def build_all_rec)

lemma postImportFinish_all_rec:
  "books st = map Rec rs \<Longrightarrow>
   postImportFinish st = (saveToStorage st)\<lparr>searchIndex := map (\<lambda>b. Some (composite b)) rs\<rparr>"
  by (simp add: postImportFinish_def Let_def rebuild_all_rec)


lemma array_set_length:
  "length (array_set bs x entry) =
     (case array_index x of None \<Rightarrow> length bs
      | Some k \<Rightarrow> if k < length bs then length bs else Suc k)"
  by (simp add: array_set_def split: option.splits)

lemma trim_Nil [simp]: "trim [] = []"
  by (simp add: trim_def)



lemma index_ok_alerts [simp]: "index_ok (st\<lparr>alerts := a\<rparr>) = index_ok st"
  by (simp add: index_ok_def)

lemma no_null_alerts [simp]: "no_null (st\<lparr>alerts := a\<rparr>) = no_null st"
  by (simp add: no_null_def)

lemma index_ok_modal [simp]: "index_ok (st\<lparr>modal_open := a\<rparr>) = index_ok st"
  by (simp add: index_ok_def)

lemma no_null_modal [simp]: "no_null (st\<lparr>modal_open := a\<rparr>) = no_null st"
  by (simp add: no_null_def)

lemma no_null_saveToStorage [simp]: "no_null (saveToStorage st) = no_null st"
  by (simp add: no_null_def)

lemma no_null_books_upd [simp]: "no_null (st\<lparr>books := bs\<rparr>) = list_all (\<lambda>s. s \<noteq> JsonNull) bs"
  by (simp add: no_null_def)






section \<open>The index invariant\<close>





section \<open>Editing by index\<close>



text \<open>
  Claim C5, as the code has it. \<^verbatim>\<open>saveFromModal\<close> with a non-empty edit index and a name
  that is not blank writes \<^verbatim>\<open>books[Number(idx)] = entry\<close> with no bounds check: an index
  below the length replaces that record and keeps the length; an index at or past the length
  stores the entry there and the sequence grows to that index plus one, with holes in
  between; a key that names no array position (negative, fractional, not a number) leaves the
  sequence as it was. With a blank name nothing is written.
\<close>

theorem update_by_index:
  assumes "editIndex f \<noteq> []"
  shows "books (saveFromModal f st) =
           (if trim (bookName f) = [] then books st
            else case array_index (to_number (editIndex f)) of
                   None \<Rightarrow> books st
                 | Some k \<Rightarrow>
                     if k < length (books st)
                     then (books st)[k := Rec \<lparr>name = trim (bookName f),
                                              khr = cleanCurrency (Str (priceKHR f)),
                                              usd = formatUSD (Str (priceUSD f))\<rparr>]
                     else books st @ replicate (k - length (books st)) Hole
                          @ [Rec \<lparr>name = trim (bookName f),
                                  khr = cleanCurrency (Str (priceKHR f)),
                                  usd = formatUSD (Str (priceUSD f))\<rparr>])
         \<and> length (books (saveFromModal f st)) =
           (if trim (bookName f) = [] then length (books st)
            else case array_index (to_number (editIndex f)) of
                   None \<Rightarrow> length (books st)
                 | Some k \<Rightarrow> max (length (books st)) (Suc k))"
  using assms
  by (simp add: books_saveFromModal array_set_def del: cleanCurrency.simps formatUSD.simps
        split: option.splits)

theorem update_by_index_witness:
  "editIndex \<lparr>editIndex = ''0'', bookName = ''B'', priceKHR = ''8000'', priceUSD = ''2''\<rparr> \<noteq> []
   \<and> books (saveFromModal \<lparr>editIndex = ''0'', bookName = ''B'', priceKHR = ''8000'', priceUSD = ''2''\<rparr>
              (fresh\<lparr>books := [Rec \<lparr>name = ''A'', khr = ''4000'', usd = ''1.00''\<rparr>]\<rparr>))
       = [Rec \<lparr>name = ''B'', khr = ''8000'', usd = ''2.00''\<rparr>]
   \<and> books (saveFromModal \<lparr>editIndex = ''-1'', bookName = ''B'', priceKHR = ''8000'', priceUSD = ''2''\<rparr>
              (fresh\<lparr>books := [Rec \<lparr>name = ''A'', khr = ''4000'', usd = ''1.00''\<rparr>]\<rparr>))
       = [Rec \<lparr>name = ''A'', khr = ''4000'', usd = ''1.00''\<rparr>]"
proof -
  define st where "st = fresh\<lparr>books := [Rec \<lparr>name = ''A'', khr = ''4000'', usd = ''1.00''\<rparr>]\<rparr>"
  define f0 where "f0 = \<lparr>editIndex = ''0'', bookName = ''B'', priceKHR = ''8000'', priceUSD = ''2''\<rparr>"
  define f1 where "f1 = \<lparr>editIndex = ''-1'', bookName = ''B'', priceKHR = ''8000'', priceUSD = ''2''\<rparr>"
  have e0: "editIndex f0 \<noteq> []" and e1: "editIndex f1 \<noteq> []" by (simp_all add: f0_def f1_def)
  have n0: "trim (bookName f0) = ''B''" "trim (bookName f1) = ''B''"
    unfolding f0_def f1_def by code_simp+
  have i0: "array_index (to_number (editIndex f0)) = Some 0" unfolding f0_def by code_simp
  have i1: "array_index (to_number (editIndex f1)) = None" unfolding f1_def by code_simp
  have k: "cleanCurrency (Str (priceKHR f0)) = ''8000''" unfolding f0_def by code_simp
  have u: "formatUSD (Str (priceUSD f0)) = ''2.00''" unfolding f0_def by code_simp
  have b: "books st = [Rec \<lparr>name = ''A'', khr = ''4000'', usd = ''1.00''\<rparr>]"
    by (simp add: st_def)
  have r0: "books (saveFromModal f0 st) = [Rec \<lparr>name = ''B'', khr = ''8000'', usd = ''2.00''\<rparr>]"
    using update_by_index [OF e0, of st] by (simp add: n0 i0 k u b del: cleanCurrency.simps formatUSD.simps)
  have r1: "books (saveFromModal f1 st) = [Rec \<lparr>name = ''A'', khr = ''4000'', usd = ''1.00''\<rparr>]"
    using update_by_index [OF e1, of st] by (simp add: n0 i1 b del: cleanCurrency.simps formatUSD.simps)
  from e0 r0 r1 show ?thesis unfolding st_def f0_def f1_def by blast
qed

theorem update_out_of_bounds_counterexample:
  "length (books (fresh\<lparr>books := [Rec \<lparr>name = ''A'', khr = ''4000'', usd = ''1.00''\<rparr>]\<rparr>)) = 1
   \<and> array_index (to_number ''3'') = Some 3
   \<and> books (saveFromModal \<lparr>editIndex = ''3'', bookName = ''B'', priceKHR = ''8000'', priceUSD = ''2''\<rparr>
            (fresh\<lparr>books := [Rec \<lparr>name = ''A'', khr = ''4000'', usd = ''1.00''\<rparr>]\<rparr>))
     = [Rec \<lparr>name = ''A'', khr = ''4000'', usd = ''1.00''\<rparr>, Hole, Hole,
        Rec \<lparr>name = ''B'', khr = ''8000'', usd = ''2.00''\<rparr>]
   \<and> books (saveFromModal \<lparr>editIndex = ''3'', bookName = ''B'', priceKHR = ''8000'', priceUSD = ''2''\<rparr>
            (fresh\<lparr>books := [Rec \<lparr>name = ''A'', khr = ''4000'', usd = ''1.00''\<rparr>]\<rparr>))
     \<noteq> books (fresh\<lparr>books := [Rec \<lparr>name = ''A'', khr = ''4000'', usd = ''1.00''\<rparr>]\<rparr>)"
proof -
  have a: "books (saveFromModal \<lparr>editIndex = ''3'', bookName = ''B'', priceKHR = ''8000'', priceUSD = ''2''\<rparr>
            (fresh\<lparr>books := [Rec \<lparr>name = ''A'', khr = ''4000'', usd = ''1.00''\<rparr>]\<rparr>))
     = [Rec \<lparr>name = ''A'', khr = ''4000'', usd = ''1.00''\<rparr>, Hole, Hole,
        Rec \<lparr>name = ''B'', khr = ''8000'', usd = ''2.00''\<rparr>]"
    by code_simp
  have b: "array_index (to_number ''3'') = Some 3" by code_simp
  show ?thesis unfolding a using b by simp
qed

section \<open>Bootstrap\<close>



lemma loadDefaultCSV_alerts: "alerts (loadDefaultCSV fr st) = alerts st"
  by (induction fr st rule: loadDefaultCSV.induct) (simp_all add: Let_def)

lemma loadDefaultCSV_nonempty: "books st \<noteq> [] \<Longrightarrow> loadDefaultCSV fr st = st"
  by (induction fr st rule: loadDefaultCSV.induct) (simp_all add: Let_def)

lemma loadDefaultCSV_changes:
  "loadDefaultCSV fr st \<noteq> st \<Longrightarrow>
     books st = []
     \<and> (\<exists>txt. fr = Response True (Some txt) \<and> 1 < length (parseCSVText txt)
           \<and> loadDefaultCSV fr st
              = saveToStorage (st\<lparr>books := map (\<lambda>r. Rec (default_row (normalize_header (hd (parseCSVText txt))) r))
                                           (tl (parseCSVText txt))\<rparr>))"
  by (induction fr st rule: loadDefaultCSV.induct) (auto simp: Let_def split: if_splits)

text \<open>
  Claim C9. \<^verbatim>\<open>loadDefaultCSV\<close> raises no notice whatever happens; it leaves a store that is
  not empty exactly as it was; a rejected fetch, a response that is not OK and a body that
  cannot be read leave the state as it was; and whenever it does change the state, the store
  was empty, the response was OK with at least two rows, and the new store is the mapped data
  rows, persisted. At start-up (\<^verbatim>\<open>init\<close>), a persisted store that is not empty is the store
  afterwards, whatever the fetch gives.
\<close>

theorem bootstrap_never_overwrites:
  "alerts (loadDefaultCSV fr st) = alerts st
   \<and> (books st \<noteq> [] \<longrightarrow> loadDefaultCSV fr st = st)
   \<and> loadDefaultCSV FetchFailed st = st
   \<and> loadDefaultCSV (Response False body) st = st
   \<and> loadDefaultCSV (Response ok None) st = st
   \<and> (loadDefaultCSV fr st \<noteq> st \<longrightarrow>
        books st = []
        \<and> (\<exists>txt. fr = Response True (Some txt) \<and> 1 < length (parseCSVText txt)
              \<and> loadDefaultCSV fr st
                 = saveToStorage
                     (st\<lparr>books := map (\<lambda>r. Rec (default_row (normalize_header (hd (parseCSVText txt))) r))
                                      (tl (parseCSVText txt))\<rparr>)))
   \<and> (storage st = Saved bs \<and> bs \<noteq> [] \<longrightarrow>
        books (init fr st) = bs \<and> alerts (init fr st) = alerts st
        \<and> storage (init fr st) = storage st)"
proof -
  have a: "loadDefaultCSV (Response False body) st = st" by (cases body) simp_all
  have b: "storage st = Saved bs \<and> bs \<noteq> [] \<longrightarrow>
        books (init fr st) = bs \<and> alerts (init fr st) = alerts st \<and> storage (init fr st) = storage st"
  proof
    assume h: "storage st = Saved bs \<and> bs \<noteq> []"
    then have "books (loadFromStorage st) \<noteq> []" by (simp add: loadFromStorage_def)
    then have "loadDefaultCSV fr (loadFromStorage st) = loadFromStorage st"
      by (rule loadDefaultCSV_nonempty)
    then show "books (init fr st) = bs \<and> alerts (init fr st) = alerts st \<and> storage (init fr st) = storage st"
      using h by (simp add: init_def loadFromStorage_def)
  qed
  have c0: "alerts (loadDefaultCSV fr st) = alerts st" by (rule loadDefaultCSV_alerts)
  have c1: "loadDefaultCSV FetchFailed st = st" by simp
  have c2: "loadDefaultCSV (Response ok None) st = st" by simp
  have c3: "books st \<noteq> [] \<longrightarrow> loadDefaultCSV fr st = st"
    using loadDefaultCSV_nonempty by blast
  have c4: "loadDefaultCSV fr st \<noteq> st \<longrightarrow>
        books st = []
        \<and> (\<exists>txt. fr = Response True (Some txt) \<and> 1 < length (parseCSVText txt)
              \<and> loadDefaultCSV fr st
                 = saveToStorage
                     (st\<lparr>books := map (\<lambda>r. Rec (default_row (normalize_header (hd (parseCSVText txt))) r))
                                      (tl (parseCSVText txt))\<rparr>))"
    using loadDefaultCSV_changes [of fr st] by blast
  show ?thesis by (intro conjI; fact)
qed

theorem bootstrap_never_overwrites_witness:
  "books (fresh\<lparr>books := [Rec \<lparr>name = ''A'', khr = ''4000'', usd = ''1.00''\<rparr>]\<rparr>) \<noteq> []
   \<and> loadDefaultCSV (Response True (Some (''name,khr'' @ [LF] @ ''B,8000'')))
        (fresh\<lparr>books := [Rec \<lparr>name = ''A'', khr = ''4000'', usd = ''1.00''\<rparr>]\<rparr>)
      = fresh\<lparr>books := [Rec \<lparr>name = ''A'', khr = ''4000'', usd = ''1.00''\<rparr>]\<rparr>
   \<and> books (loadDefaultCSV (Response True (Some (''name,khr'' @ [LF] @ ''B,8000''))) fresh)
      = [Rec \<lparr>name = ''B'', khr = ''8000'', usd = ''0.00''\<rparr>]
   \<and> loadDefaultCSV (Response True (Some (''name,khr'' @ [LF] @ ''B,8000''))) fresh \<noteq> fresh"
proof -
  define st where "st = fresh\<lparr>books := [Rec \<lparr>name = ''A'', khr = ''4000'', usd = ''1.00''\<rparr>]\<rparr>"
  define fr where "fr = Response True (Some (''name,khr'' @ [LF] @ ''B,8000''))"
  have a: "books st \<noteq> []" by (simp add: st_def)
  have b: "loadDefaultCSV fr st = st"
    using bootstrap_never_overwrites [of fr st] a by blast
  have c: "books (loadDefaultCSV fr fresh) = [Rec \<lparr>name = ''B'', khr = ''8000'', usd = ''0.00''\<rparr>]"
    unfolding fr_def by code_simp
  have d: "books fresh = []" by (simp add: fresh_def)
  have e: "loadDefaultCSV fr fresh \<noteq> fresh" using c d by auto
  from a b c e show ?thesis unfolding st_def fr_def by blast
qed

section \<open>Empty and header-only CSV files\<close>



lemma parseCSVText_length:
  "length (parseCSVText txt) = length (filter (\<lambda>l. trim l \<noteq> []) (split_lines [] txt))"
  by (simp add: parseCSVText_def)

lemma parseCSVText_Nil_iff:
  "parseCSVText txt = [] \<longleftrightarrow> list_all (\<lambda>l. trim l = []) (split_lines [] txt)"
  by (simp add: parseCSVText_def filter_empty_conv list_all_iff)

lemma import_csv_nonempty:
  assumes "ends_with (toLowerCase (file_name u)) ''.csv''" "file_text u = Some txt"
    and "parseCSVText txt \<noteq> []"
  shows "import_file (Some u) st
         = (saveToStorage (st\<lparr>books := map Rec (map (import_row (normalize_header (hd (parseCSVText txt))))
                                                 (tl (parseCSVText txt)))\<rparr>))
             \<lparr>searchIndex := map (\<lambda>b. Some (composite b))
                                (map (import_row (normalize_header (hd (parseCSVText txt))))
                                   (tl (parseCSVText txt)))\<rparr>"
proof -
  have "books (st\<lparr>books := map Rec (map (import_row (normalize_header (hd (parseCSVText txt))))
                                                 (tl (parseCSVText txt)))\<rparr>)
        = map Rec (map (import_row (normalize_header (hd (parseCSVText txt)))) (tl (parseCSVText txt)))"
    by simp
  from postImportFinish_all_rec [OF this] assms show ?thesis
    by (simp add: import_file_def Let_def comp_def)
qed

text \<open>
  Claim C10. In the manual import of a file named \<^verbatim>\<open>*.csv\<close> whose text was read: the notice
  \<^verbatim>\<open>CSV is empty\<close> is raised, and nothing else is changed, exactly when every line of the text
  is blank; otherwise no notice is raised. A text with a single line that is not blank (a
  header and no data) replaces the store by the empty sequence and persists the empty
  sequence. \<^verbatim>\<open>loadDefaultCSV\<close> leaves the state as it was when the fetched text has at most
  one row. The rows are the lines that are not blank.
\<close>

theorem csv_empty_notice:
  assumes "ends_with (toLowerCase (file_name u)) ''.csv''" and "file_text u = Some txt"
  shows "(list_all (\<lambda>l. trim l = []) (split_lines [] txt) \<longrightarrow>
            import_file (Some u) st = st\<lparr>alerts := alerts st @ [CsvEmpty]\<rparr>)
         \<and> (\<not> list_all (\<lambda>l. trim l = []) (split_lines [] txt) \<longrightarrow>
            alerts (import_file (Some u) st) = alerts st)
         \<and> (length (filter (\<lambda>l. trim l \<noteq> []) (split_lines [] txt)) = 1 \<longrightarrow>
            books (import_file (Some u) st) = []
            \<and> storage (import_file (Some u) st) = Saved []
            \<and> searchIndex (import_file (Some u) st) = []
            \<and> alerts (import_file (Some u) st) = alerts st)
         \<and> (length (filter (\<lambda>l. trim l \<noteq> []) (split_lines [] txt)) \<le> 1 \<longrightarrow>
            loadDefaultCSV (Response ok (Some txt)) st = st)
         \<and> length (parseCSVText txt) = length (filter (\<lambda>l. trim l \<noteq> []) (split_lines [] txt))"
proof -
  have a: "list_all (\<lambda>l. trim l = []) (split_lines [] txt) \<longrightarrow>
            import_file (Some u) st = st\<lparr>alerts := alerts st @ [CsvEmpty]\<rparr>"
    using assms by (simp add: import_file_def Let_def parseCSVText_Nil_iff [symmetric])
  have b: "\<not> list_all (\<lambda>l. trim l = []) (split_lines [] txt) \<longrightarrow>
            alerts (import_file (Some u) st) = alerts st"
    using import_csv_nonempty [OF assms, of st] by (simp add: parseCSVText_Nil_iff [symmetric])
  have c: "length (filter (\<lambda>l. trim l \<noteq> []) (split_lines [] txt)) = 1 \<longrightarrow>
            books (import_file (Some u) st) = []
            \<and> storage (import_file (Some u) st) = Saved []
            \<and> searchIndex (import_file (Some u) st) = []
            \<and> alerts (import_file (Some u) st) = alerts st"
  proof
    assume "length (filter (\<lambda>l. trim l \<noteq> []) (split_lines [] txt)) = 1"
    then have l: "length (parseCSVText txt) = 1" by (simp add: parseCSVText_length)
    then have ne: "parseCSVText txt \<noteq> []" by auto
    from l have t: "tl (parseCSVText txt) = []" by (cases "parseCSVText txt") auto
    show "books (import_file (Some u) st) = []
            \<and> storage (import_file (Some u) st) = Saved []
            \<and> searchIndex (import_file (Some u) st) = []
            \<and> alerts (import_file (Some u) st) = alerts st"
      by (simp add: import_csv_nonempty [OF assms ne] t)
  qed
  have d: "length (filter (\<lambda>l. trim l \<noteq> []) (split_lines [] txt)) \<le> 1 \<longrightarrow>
            loadDefaultCSV (Response ok (Some txt)) st = st"
    by (simp add: parseCSVText_length Let_def)
  have e: "length (parseCSVText txt) = length (filter (\<lambda>l. trim l \<noteq> []) (split_lines [] txt))"
    by (rule parseCSVText_length)
  show ?thesis by (intro conjI; fact)
qed

theorem csv_empty_notice_witness:
  "ends_with (toLowerCase ''Books.CSV'') ''.csv''
   \<and> filter (\<lambda>l. trim l \<noteq> []) (split_lines [] (''Book Title,Price/Unit,USD'' @ [CR, LF]))
       = [''Book Title,Price/Unit,USD'']
   \<and> books (import_file (Some \<lparr>file_name = ''Books.CSV'',
                                file_text = Some (''Book Title,Price/Unit,USD'' @ [CR, LF]),
                                sheet_json = None\<rparr>)
              (fresh\<lparr>books := [Rec \<lparr>name = ''A'', khr = ''4000'', usd = ''1.00''\<rparr>]\<rparr>)) = []
   \<and> storage (import_file (Some \<lparr>file_name = ''Books.CSV'',
                                file_text = Some (''Book Title,Price/Unit,USD'' @ [CR, LF]),
                                sheet_json = None\<rparr>)
              (fresh\<lparr>books := [Rec \<lparr>name = ''A'', khr = ''4000'', usd = ''1.00''\<rparr>]\<rparr>)) = Saved []
   \<and> alerts (import_file (Some \<lparr>file_name = ''Books.CSV'',
                                file_text = Some (''Book Title,Price/Unit,USD'' @ [CR, LF]),
                                sheet_json = None\<rparr>)
              (fresh\<lparr>books := [Rec \<lparr>name = ''A'', khr = ''4000'', usd = ''1.00''\<rparr>]\<rparr>)) = []
   \<and> list_all (\<lambda>l. trim l = []) (split_lines [] ('' '' @ [LF]))
   \<and> alerts (import_file (Some \<lparr>file_name = ''Books.CSV'', file_text = Some ('' '' @ [LF]),
                                sheet_json = None\<rparr>) fresh) = [CsvEmpty]"
proof -
  define u where "u = \<lparr>file_name = ''Books.CSV'',
                        file_text = Some (''Book Title,Price/Unit,USD'' @ [CR, LF]),
                        sheet_json = (None :: jsobj list option)\<rparr>"
  define v where "v = \<lparr>file_name = ''Books.CSV'', file_text = Some ('' '' @ [LF]),
                        sheet_json = (None :: jsobj list option)\<rparr>"
  define st where "st = fresh\<lparr>books := [Rec \<lparr>name = ''A'', khr = ''4000'', usd = ''1.00''\<rparr>]\<rparr>"
  have n: "ends_with (toLowerCase ''Books.CSV'') ''.csv''" by code_simp
  have nu: "ends_with (toLowerCase (file_name u)) ''.csv''" using n by (simp add: u_def)
  have nv: "ends_with (toLowerCase (file_name v)) ''.csv''" using n by (simp add: v_def)
  have tu: "file_text u = Some (''Book Title,Price/Unit,USD'' @ [CR, LF])" by (simp add: u_def)
  have tv: "file_text v = Some ('' '' @ [LF])" by (simp add: v_def)
  have f: "filter (\<lambda>l. trim l \<noteq> []) (split_lines [] (''Book Title,Price/Unit,USD'' @ [CR, LF]))
       = [''Book Title,Price/Unit,USD'']"
    by code_simp
  have g: "list_all (\<lambda>l. trim l = []) (split_lines [] ('' '' @ [LF]))" by code_simp
  have r1: "books (import_file (Some u) st) = [] \<and> storage (import_file (Some u) st) = Saved []
            \<and> alerts (import_file (Some u) st) = alerts st"
    using csv_empty_notice [OF nu tu, of st] f by simp
  have r2: "import_file (Some v) fresh = fresh\<lparr>alerts := alerts fresh @ [CsvEmpty]\<rparr>"
    using csv_empty_notice [OF nv tv, of fresh] g by blast
  have a0: "alerts st = []" "alerts fresh = []" by (simp_all add: st_def fresh_def)
  have r3: "alerts (import_file (Some v) fresh) = [CsvEmpty]" unfolding r2 by (simp add: a0)
  from n f g r1 r3 a0 show ?thesis unfolding u_def v_def st_def by simp
qed

section \<open>The record mapper\<close>

lemma build_obj_lookup:
  "build_obj hs r idx obj key = (case lookup_col hs r idx key of Some v \<Rightarrow> Some v | None \<Rightarrow> obj key)"
  by (induction hs r idx obj rule: build_obj.induct) (simp_all add: fun_upd_def split: option.splits)

lemma build_obj_empty: "build_obj hs r 0 Map.empty key = lookup_col hs r 0 key"
  by (simp add: build_obj_lookup split: option.splits)

lemma or_js_None_truthy: "or_js a None = (if truthy a then a else None)"
  by (simp add: or_js_def truthy_def split: option.splits)

lemma or_chain3: "or_str (or_js (or_js a b) c) [] = first_nonempty [a, b, c]"
  by (simp add: or_str_def or_js_def first_nonempty_def truthy_def split: option.splits)

lemma or_chain2: "or_str (or_js a b) [] = first_nonempty [a, b]"
  by (simp add: or_str_def or_js_def first_nonempty_def truthy_def split: option.splits)

lemma cleanCurrency_empty: "cleanCurrency (Str []) = []"
  by simp

lemma formatUSD_empty: "formatUSD (Str []) = []"
  by (simp add: parseFloat_def parse_decimal_literal_def)

lemma usd_arg_eq:
  "usd_arg obj =
     (if truthy (obj ''usd'') then Str (the (obj ''usd''))
      else Num (div_by (to_number (cleanCurrency (opt_val (obj ''price/unit'')))) RATE))"
  by (simp add: usd_arg_def or_js_None_truthy truthy_def del: cleanCurrency.simps split: option.splits)

lemma sheet_usd_arg_eq:
  "sheet_usd_arg r =
     (if truthy (r ''USD'') then Str (the (r ''USD''))
      else if truthy (r ''Price/Unit'')
        then Num (div_by (to_number (remove_matches match_non_numeric (the (r ''Price/Unit'')))) RATE)
      else Str [])"
  by (simp add: sheet_usd_arg_def or_js_None_truthy truthy_def split: option.splits)

lemma derived_source_agrees:
  assumes "truthy p \<or> (\<not> truthy k1 \<and> \<not> truthy k2)"
  shows "cleanCurrency (opt_val p) = cleanCurrency (Str (first_nonempty [p, k1, k2]))"
  using assms by (auto simp: opt_val_def first_nonempty_def truthy_def split: option.splits)

text \<open>
  Claim C1, as the code has it. For a CSV data row (manual import and
  \<^verbatim>\<open>loadDefaultCSV\<close> alike), with the columns looked up by normalised header: usd is
  \<^verbatim>\<open>formatUSD\<close> of the \<^verbatim>\<open>usd\<close> column when that is present and not empty; otherwise it is
  \<^verbatim>\<open>formatUSD(cleanCurrency(c) / 4000)\<close> for the cell \<open>c\<close> of the \<^verbatim>\<open>price/unit\<close> column alone,
  which is the value derived from the resolved khr source whenever \<^verbatim>\<open>price/unit\<close> is not empty
  or the other two aliases are empty too. For a spreadsheet row: \<^verbatim>\<open>formatUSD\<close> of the
  \<^verbatim>\<open>USD\<close> cell when present and not empty; otherwise, when the \<^verbatim>\<open>Price/Unit\<close> cell is present
  and not empty, \<^verbatim>\<open>formatUSD\<close> of that cell stripped to digits, dot and minus, read as a
  Number and divided by 4000; otherwise the empty string.
\<close>

theorem usd_of_imported_row:
  "usd (import_row header r) =
     (if truthy (lookup_col header r 0 ''usd'')
      then formatUSD (Str (the (lookup_col header r 0 ''usd'')))
      else formatUSD (Num (div_by (to_number (cleanCurrency (opt_val (lookup_col header r 0 ''price/unit'')))) RATE)))
   \<and> usd (default_row header r) = usd (import_row header r)
   \<and> (truthy (lookup_col header r 0 ''price/unit'')
        \<or> (\<not> truthy (lookup_col header r 0 ''khr'') \<and> \<not> truthy (lookup_col header r 0 ''price (khr)''))
       \<longrightarrow> cleanCurrency (opt_val (lookup_col header r 0 ''price/unit''))
           = cleanCurrency (Str (first_nonempty [lookup_col header r 0 ''price/unit'',
                                                  lookup_col header r 0 ''khr'',
                                                  lookup_col header r 0 ''price (khr)''])))
   \<and> khr (import_row header r)
       = cleanCurrency (Str (first_nonempty [lookup_col header r 0 ''price/unit'',
                                              lookup_col header r 0 ''khr'',
                                              lookup_col header r 0 ''price (khr)'']))
   \<and> usd (sheet_row row) =
     (if truthy (row ''USD'') then formatUSD (Str (the (row ''USD'')))
      else if truthy (row ''Price/Unit'')
        then formatUSD (Num (div_by (to_number (remove_matches match_non_numeric (the (row ''Price/Unit'')))) RATE))
      else [])"
proof -
  have a: "usd (import_row header r) =
     (if truthy (lookup_col header r 0 ''usd'')
      then formatUSD (Str (the (lookup_col header r 0 ''usd'')))
      else formatUSD (Num (div_by (to_number (cleanCurrency (opt_val (lookup_col header r 0 ''price/unit'')))) RATE)))"
    by (simp add: import_row_def Let_def usd_arg_eq build_obj_empty
          del: cleanCurrency.simps formatUSD.simps)
  have b: "usd (default_row header r) = usd (import_row header r)"
    by (simp add: import_row_def default_row_def Let_def)
  have c: "truthy (lookup_col header r 0 ''price/unit'')
        \<or> (\<not> truthy (lookup_col header r 0 ''khr'') \<and> \<not> truthy (lookup_col header r 0 ''price (khr)''))
       \<longrightarrow> cleanCurrency (opt_val (lookup_col header r 0 ''price/unit''))
           = cleanCurrency (Str (first_nonempty [lookup_col header r 0 ''price/unit'',
                                                  lookup_col header r 0 ''khr'',
                                                  lookup_col header r 0 ''price (khr)'']))"
    using derived_source_agrees by blast
  have d: "khr (import_row header r)
       = cleanCurrency (Str (first_nonempty [lookup_col header r 0 ''price/unit'',
                                              lookup_col header r 0 ''khr'',
                                              lookup_col header r 0 ''price (khr)'']))"
    by (simp add: import_row_def Let_def or_chain3 build_obj_empty del: cleanCurrency.simps)
  have e: "usd (sheet_row row) =
     (if truthy (row ''USD'') then formatUSD (Str (the (row ''USD'')))
      else if truthy (row ''Price/Unit'')
        then formatUSD (Num (div_by (to_number (remove_matches match_non_numeric (the (row ''Price/Unit'')))) RATE))
      else [])"
    by (simp add: sheet_row_def sheet_usd_arg_eq formatUSD_empty del: formatUSD.simps)
  show ?thesis by (intro conjI; fact)
qed

theorem usd_of_imported_row_witness:
  "truthy (lookup_col [''book title'', ''price/unit''] [''A'', ''1234''] 0 ''price/unit'')
   \<and> \<not> truthy (lookup_col [''book title'', ''price/unit''] [''A'', ''1234''] 0 ''usd'')
   \<and> usd (import_row [''book title'', ''price/unit''] [''A'', ''1234'']) = ''0.31''
   \<and> usd (default_row [''book title'', ''price/unit''] [''A'', ''1234'']) = ''0.31''
   \<and> first_nonempty [lookup_col [''book title'', ''price/unit''] [''A'', ''1234''] 0 ''price/unit'',
                      lookup_col [''book title'', ''price/unit''] [''A'', ''1234''] 0 ''khr'',
                      lookup_col [''book title'', ''price/unit''] [''A'', ''1234''] 0 ''price (khr)'']
       = ''1234''"
proof -
  define h where "h = [''book title'', ''price/unit'']"
  define r where "r = [''A'', ''1234'']"
  have a: "lookup_col h r 0 ''price/unit'' = Some ''1234''" unfolding h_def r_def by code_simp
  have b: "lookup_col h r 0 ''usd'' = None" unfolding h_def r_def by code_simp
  have c: "lookup_col h r 0 ''khr'' = None" "lookup_col h r 0 ''price (khr)'' = None"
    unfolding h_def r_def by code_simp+
  have d: "formatUSD (Num (div_by (to_number (cleanCurrency (opt_val (Some ''1234'')))) RATE)) = ''0.31''"
    by code_simp
  have ta: "truthy (Some ''1234'')" "\<not> truthy None" by (simp_all add: truthy_def)
  have e: "usd (import_row h r) = ''0.31''"
    using usd_of_imported_row [of h r] by (simp only: a b d ta if_False)
  have f: "usd (default_row h r) = ''0.31''"
    using usd_of_imported_row [of h r] e by simp
  have g: "first_nonempty [lookup_col h r 0 ''price/unit'', lookup_col h r 0 ''khr'',
                            lookup_col h r 0 ''price (khr)''] = ''1234''"
    unfolding a c by (simp add: first_nonempty_def truthy_def)
  from a b e f g ta show ?thesis unfolding h_def r_def by simp
qed

theorem usd_derivation_counterexample:
  "\<not> truthy (lookup_col [''name'', ''khr''] [''A'', ''4000''] 0 ''usd'')
   \<and> first_nonempty [lookup_col [''name'', ''khr''] [''A'', ''4000''] 0 ''price/unit'',
                      lookup_col [''name'', ''khr''] [''A'', ''4000''] 0 ''khr'',
                      lookup_col [''name'', ''khr''] [''A'', ''4000''] 0 ''price (khr)''] = ''4000''
   \<and> formatUSD (Num (div_by (to_number (cleanCurrency (Str ''4000''))) RATE)) = ''1.00''
   \<and> import_row [''name'', ''khr''] [''A'', ''4000''] = \<lparr>name = ''A'', khr = ''4000'', usd = ''0.00''\<rparr>
   \<and> default_row [''name'', ''khr''] [''A'', ''4000''] = \<lparr>name = ''A'', khr = ''4000'', usd = ''0.00''\<rparr>
   \<and> books (import_file (Some \<lparr>file_name = ''books.csv'',
                                file_text = Some (''Name,KHR'' @ [LF] @ ''A,4000''),
                                sheet_json = None\<rparr>) fresh)
       = [Rec \<lparr>name = ''A'', khr = ''4000'', usd = ''0.00''\<rparr>]
   \<and> sheet_row [''Book Title'' \<mapsto> ''A'', ''KHR'' \<mapsto> ''4000'']
       = \<lparr>name = ''A'', khr = ''4000'', usd = []\<rparr>"
  by code_simp

text \<open>
  Claim C6 at the failing input. The bootstrap file \<^verbatim>\<open>name,price (khr)\<close> / \<^verbatim>\<open>A,4000\<close>:
  \<^verbatim>\<open>loadDefaultCSV\<close> tries only \<^verbatim>\<open>price/unit\<close> and \<^verbatim>\<open>khr\<close> and stores an empty khr, where
  the manual import of the same text resolves \<^verbatim>\<open>price (khr)\<close> and stores 4000.
\<close>

theorem bootstrap_misses_price_khr_alias:
  "books (loadDefaultCSV (Response True (Some (''name,price (khr)'' @ [LF] @ ''A,4000''))) fresh)
      = [Rec \<lparr>name = ''A'', khr = [], usd = ''0.00''\<rparr>]
   \<and> books (import_file (Some \<lparr>file_name = ''books.csv'',
                                file_text = Some (''name,price (khr)'' @ [LF] @ ''A,4000''),
                                sheet_json = None\<rparr>) fresh)
      = [Rec \<lparr>name = ''A'', khr = ''4000'', usd = ''0.00''\<rparr>]"
  by code_simp

section \<open>The tabular parser\<close>

lemma split_on_nonempty [simp]: "split_on c xs \<noteq> []"
  by (induction xs) simp_all

lemma spec_lines_Nil [simp]: "spec_lines [] = [[]]"
  by (simp add: spec_lines_def)

lemma spec_lines_nonempty [simp]: "spec_lines xs \<noteq> []"
  by (simp add: spec_lines_def)

lemma spec_lines_LF: "spec_lines (LF # cs) = [] # spec_lines cs"
  by (simp add: spec_lines_def strip_cr_def)

lemma spec_lines_CRLF: "spec_lines (CR # LF # cs) = [] # spec_lines cs"
  by (simp add: spec_lines_def strip_cr_def)

lemma strip_cr_Cons: "p \<noteq> [] \<Longrightarrow> strip_cr (c # p) = c # strip_cr p"
  by (simp add: strip_cr_def)

lemma hd_split_on_LF: "hd (split_on LF (LF # cs)) = []"
  by simp

lemma scan_nonempty: "scan l cur q cols \<noteq> []"
  by (induction l cur q cols rule: scan.induct) (auto split: list.splits)


lemma spec_lines_other:
  assumes "c \<noteq> LF" and "\<not> (c = CR \<and> cs \<noteq> [] \<and> hd cs = LF)"
  shows "spec_lines (c # cs) = (c # hd (spec_lines cs)) # tl (spec_lines cs)"
proof -
  obtain p ps where ps: "split_on LF cs = p # ps"
    using split_on_nonempty [of LF cs] by (cases "split_on LF cs") auto
  show ?thesis
  proof (cases "ps = []")
    case True
    then show ?thesis using assms(1) ps by (simp add: spec_lines_def)
  next
    case False
    have pne: "p = [] \<Longrightarrow> c \<noteq> CR"
    proof
      assume "p = []" "c = CR"
      with ps False have "cs \<noteq> [] \<and> hd cs = LF"
        by (cases cs) (auto split: if_splits)
      with assms(2) \<open>c = CR\<close> show False by simp
    qed
    have "strip_cr (c # p) = c # strip_cr p"
    proof (cases "p = []")
      case True
      then show ?thesis using pne by (simp add: strip_cr_def)
    next
      case False
      then show ?thesis by (rule strip_cr_Cons)
    qed
    then show ?thesis using assms(1) ps False by (simp add: spec_lines_def)
  qed
qed

lemma scan_drop_step:
  assumes "i < length line"
  shows "scan (drop i line) cur q cols =
     (if line ! i = DQ then
        (if q \<and> i + 1 < length line \<and> line ! (i + 1) = DQ
         then scan (drop (i + 2) line) (cur @ [DQ]) q cols
         else scan (drop (i + 1) line) cur (\<not> q) cols)
      else if line ! i = COMMA \<and> \<not> q then scan (drop (i + 1) line) [] q (cols @ [cur])
      else scan (drop (i + 1) line) (cur @ [line ! i]) q cols)"
proof -
  have d: "drop i line = line ! i # drop (Suc i) line"
    using assms by (simp add: Cons_nth_drop_Suc)
  show ?thesis
  proof (cases "Suc i < length line")
    case False
    then have "drop (Suc i) line = []" by simp
    then show ?thesis using False by (simp add: d)
  next
    case True
    then have "drop (Suc i) line = line ! Suc i # drop (Suc (Suc i)) line"
      by (simp add: Cons_nth_drop_Suc)
    then show ?thesis using True by (simp add: d)
  qed
qed

lemma parse_line_scan: "parse_line line i cur q cols = scan (drop i line) cur q cols"
proof (induction line i cur q cols rule: parse_line.induct)
  case (1 line i cur inQuotes cols)
  show ?case
  proof (cases "i < length line")
    case False
    then show ?thesis by (simp add: parse_line.simps [of line i])
  next
    case True
    show ?thesis
      using True 1
      by (subst parse_line.simps, subst scan_drop_step [OF True]) auto
  qed
qed

lemma split_lines_spec_gen:
  "split_lines cur s = (cur @ hd (spec_lines s)) # tl (spec_lines s)"
proof (induction cur s rule: split_lines.induct)
  case (1 cur)
  show ?case by simp
next
  case (2 cur c cs)
  show ?case
  proof (cases "c = LF")
    case True
    then show ?thesis using 2 by (simp add: spec_lines_LF)
  next
    case nlf: False
    show ?thesis
    proof (cases "c = CR \<and> cs \<noteq> [] \<and> hd cs = LF")
      case True
      then obtain ds where "cs = LF # ds" by (cases cs) auto
      then show ?thesis using True nlf 2 by (simp add: spec_lines_CRLF)
    next
      case False
      then show ?thesis using nlf 2 spec_lines_other [OF nlf False] by auto
    qed
  qed
qed

lemma split_lines_spec: "split_lines [] s = spec_lines s"
  by (simp add: split_lines_spec_gen)

text \<open>
  Claim C4. \<^verbatim>\<open>parseCSVText\<close> cuts the text at every line feed, takes one carriage return
  off the end of a piece that a line feed ended, drops the lines that are blank after
  trimming, and reads each remaining line with the scanner of the specification: a double
  quote toggles the flag, except that inside quotes a double quote followed by another one
  adds one double quote to the field and toggles nothing; a comma outside quotes ends the
  field; any other character is added to the field; the field being read is emitted at the end
  of the line. Every row has at least one field.
\<close>

theorem parseCSVText_spec:
  "parseCSVText s = map (\<lambda>l. scan l [] False []) (filter (\<lambda>l. trim l \<noteq> []) (spec_lines s))
   \<and> list_all (\<lambda>row. row \<noteq> []) (parseCSVText s)
   \<and> parse_line l 0 [] False [] = scan l [] False []
   \<and> split_lines [] s = spec_lines s
   \<and> parseCSVText (''a,'' @ [DQ] @ ''b '' @ [DQ, DQ] @ ''c'' @ [DQ, DQ] @ '', d'' @ [DQ] @ '',e''
                     @ [CR, LF] @ ''  '' @ [LF] @ '',x'' @ [CR])
       = [[''a'', ''b '' @ [DQ] @ ''c'' @ [DQ] @ '', d'', ''e''], [[], ''x'' @ [CR]]]"
proof -
  have a: "parseCSVText s = map (\<lambda>l. scan l [] False []) (filter (\<lambda>l. trim l \<noteq> []) (spec_lines s))"
    by (simp add: parseCSVText_def split_lines_spec parse_line_scan)
  have b: "list_all (\<lambda>row. row \<noteq> []) (parseCSVText s)"
    unfolding a by (simp add: list_all_iff scan_nonempty)
  have c: "parse_line l 0 [] False [] = scan l [] False []"
    by (simp add: parse_line_scan)
  have d: "split_lines [] s = spec_lines s" by (rule split_lines_spec)
  have e: "parseCSVText (''a,'' @ [DQ] @ ''b '' @ [DQ, DQ] @ ''c'' @ [DQ, DQ] @ '', d'' @ [DQ] @ '',e''
                     @ [CR, LF] @ ''  '' @ [LF] @ '',x'' @ [CR])
       = [[''a'', ''b '' @ [DQ] @ ''c'' @ [DQ] @ '', d'', ''e''], [[], ''x'' @ [CR]]]"
    by code_simp
  show ?thesis by (intro conjI; fact)
qed

end
